theory Spec2Isabelle
  imports
    Complex_Main
    "HOL-Library.Multiset"
    "HOL-Library.Char_ord"
    "HOL-Library.List_Lexorder"
begin

section \<open>The input table\<close>

text \<open>
  \<^verbatim>\<open>export_tableau_tables.py\<close> reads one CSV file into a pandas frame \<^verbatim>\<open>df\<close> and derives
  twelve tables from it. A row of the frame is a posting. The three columns the script groups
  by can hold a missing value (an empty CSV cell, which pandas reads as NaN): they are
  options, \<open>None\<close> being the missing value. The skill flags are booleans, looked up by the
  full column name (\<^verbatim>\<open>skill_sql\<close>). The remaining cells are only copied into the fact
  table and are kept as raw text. The script reads the three grouping columns and
  \<^verbatim>\<open>posted_at_datetime_utc\<close> unconditionally, so a frame is taken to have them; \<open>columns\<close>
  is the header of the file, from which the skill columns and the optional columns of the
  fact table are found.

  Python floats are modelled as exact rationals. A float that is not a finite number (NaN, or
  the result of a division by zero) is \<open>None\<close>.
\<close>

type_synonym pyfloat = "rat option"

datatype error = KeyError | ValueError

record posting =
  country_name :: "string option"
  experience_group :: "string option"
  is_remote :: "bool option"
  skill :: "string \<Rightarrow> bool"
  other :: "string \<Rightarrow> string"

record dataframe =
  columns :: "string list"
  rows :: "posting list"

subsection \<open>Floats\<close>

definition truediv :: "rat \<Rightarrow> rat \<Rightarrow> pyfloat" where
  "truediv a b = (if b = 0 then None else Some (a / b))"

definition fmul :: "pyfloat \<Rightarrow> rat \<Rightarrow> pyfloat" where
  "fmul x k = map_option (\<lambda>v. v * k) x"

definition fsub :: "pyfloat \<Rightarrow> pyfloat \<Rightarrow> pyfloat" where
  "fsub x y = (case (x, y) of (Some a, Some b) \<Rightarrow> Some (a - b) | _ \<Rightarrow> None)"

definition b2i :: "bool \<Rightarrow> int" where
  "b2i b = (if b then 1 else 0)"

text \<open>\<^verbatim>\<open>Series.mean()\<close>: NaN on an empty series.\<close>

definition mean :: "int list \<Rightarrow> pyfloat" where
  "mean xs = truediv (of_int (sum_list xs)) (of_nat (length xs))"

subsection \<open>pandas primitives\<close>

text \<open>
  \<^verbatim>\<open>sort_values(..., ascending=False)\<close> is called with the default \<^verbatim>\<open>kind='quicksort'\<close>, which
  pandas documents as not stable. The routine that computes the sorting permutation is a
  parameter \<open>srt\<close> of every table that sorts: from the key column it returns the row
  positions in output order. The theorems on sorted tables hold for every routine with
  \<open>sorts_descending\<close>: the positions are a permutation, and the keys do not increase along
  them. The routine of numpy itself is \<open>numpy_desc\<close> below.
\<close>

type_synonym sorter = "rat list \<Rightarrow> nat list"

definition sorts_descending :: "sorter \<Rightarrow> bool" where
  "sorts_descending srt \<longleftrightarrow>
     (\<forall>ks. mset (srt ks) = mset [0..<length ks] \<and>
           sorted_wrt (\<lambda>a b. a \<ge> b) (map (\<lambda>i. ks ! i) (srt ks)))"

definition take_rows :: "'a list \<Rightarrow> nat list \<Rightarrow> 'a list" where
  "take_rows xs idx = map (\<lambda>i. xs ! i) idx"

text \<open>Rows whose key is NaN go last, in their original order (\<^verbatim>\<open>na_position='last'\<close>).\<close>

definition sort_values_desc :: "sorter \<Rightarrow> ('a \<Rightarrow> pyfloat) \<Rightarrow> 'a list \<Rightarrow> 'a list" where
  "sort_values_desc srt key xs =
     (let good = filter (\<lambda>x. key x \<noteq> None) xs;
          bad = filter (\<lambda>x. key x = None) xs
      in take_rows good (srt (map (\<lambda>x. the (key x)) good)) @ bad)"

text \<open>A stable sorting routine.\<close>

definition stable_desc :: sorter where
  "stable_desc ks = map snd (sort_key (\<lambda>p. - fst p) (zip ks [0..<length ks]))"

subsection \<open>The sorting routine of numpy\<close>

text \<open>
  For one key column pandas computes the permutation with \<^verbatim>\<open>nargsort\<close>, which calls
  numpy's \<^verbatim>\<open>argsort(kind='quicksort')\<close>. That routine, \<^verbatim>\<open>aquicksort\<close>, sorts an array
  \<open>t\<close> of positions, at first \<open>0, 1, ...\<close>, by the keys \<open>v\<close> they point to. A range of more than
  17 positions is partitioned around the median of its first, middle and last key; a shorter
  range is sorted by insertion. \<open>swap\<close> is \<^verbatim>\<open>INTP_SWAP\<close>; \<open>scan_up\<close> and \<open>scan_down\<close> are the two
  \<^verbatim>\<open>do ... while\<close> loops of the partition, which in C stop at the pivot and at the median
  without a bound check; \<open>shift_up\<close> is the inner loop of the insertion sort.

  The C code keeps the larger part of a partition on a stack and goes on with the smaller
  one; here the two parts are sorted one after the other, which gives the same array, the
  parts being disjoint. The flag \<open>popped\<close> says that the range comes from the stack: only then
  is the depth limit looked at. The result is \<open>None\<close> where that limit sends numpy to its
  heapsort, which is not modelled, and where the fuel of a loop runs out. Builds of numpy
  that replace this routine by a vectorised one are not modelled either.
\<close>

definition swap :: "nat list \<Rightarrow> nat \<Rightarrow> nat \<Rightarrow> nat list" where
  "swap t i j = t[i := t ! j, j := t ! i]"

definition key_at :: "rat list \<Rightarrow> nat list \<Rightarrow> nat \<Rightarrow> rat" where
  "key_at v t i = v ! (t ! i)"

function scan_up :: "rat list \<Rightarrow> rat \<Rightarrow> nat list \<Rightarrow> nat \<Rightarrow> nat" where
  "scan_up v vp t i = (if i < length t \<and> key_at v t i < vp then scan_up v vp t (Suc i) else i)"
  by pat_completeness auto
termination
  by (relation "measure (\<lambda>(v, vp, t, i). length t - i)") auto

primrec scan_down :: "rat list \<Rightarrow> rat \<Rightarrow> nat list \<Rightarrow> nat \<Rightarrow> nat" where
  "scan_down v vp t 0 = 0"
| "scan_down v vp t (Suc j) = (if vp < key_at v t (Suc j) then scan_down v vp t j else Suc j)"

primrec partition_loop ::
  "nat \<Rightarrow> rat list \<Rightarrow> rat \<Rightarrow> nat list \<Rightarrow> nat \<Rightarrow> nat \<Rightarrow> (nat list \<times> nat) option" where
  "partition_loop 0 v vp t ip jp = None"
| "partition_loop (Suc n) v vp t ip jp =
     (let ip' = scan_up v vp t (Suc ip);
          jp' = scan_down v vp t (jp - 1)
      in if ip' \<ge> jp' then Some (t, ip')
         else partition_loop n v vp (swap t ip' jp') ip' jp')"


primrec shift_up :: "rat list \<Rightarrow> rat \<Rightarrow> nat \<Rightarrow> nat list \<Rightarrow> nat \<Rightarrow> nat list \<times> nat" where
  "shift_up v vp pl t 0 = (t, 0)"
| "shift_up v vp pl t (Suc k) =
     (if Suc k > pl \<and> vp < key_at v t k then shift_up v vp pl (t[Suc k := t ! k]) k
      else (t, Suc k))"

definition insert_at :: "rat list \<Rightarrow> nat \<Rightarrow> nat \<Rightarrow> nat list \<Rightarrow> nat list" where
  "insert_at v pl ip t =
     (let vi = t ! ip; (t', jp) = shift_up v (v ! vi) pl t ip in t'[jp := vi])"

definition insertion_sort :: "rat list \<Rightarrow> nat list \<Rightarrow> nat \<Rightarrow> nat \<Rightarrow> nat list" where
  "insertion_sort v t pl pr = fold (insert_at v pl) [Suc pl..<Suc pr] t"

fun npy_get_msb :: "nat \<Rightarrow> nat" where
  "npy_get_msb n = (if n < 2 then 0 else Suc (npy_get_msb (n div 2)))"

definition partition :: "rat list \<Rightarrow> nat list \<Rightarrow> nat \<Rightarrow> nat \<Rightarrow> (nat list \<times> nat) option" where
  "partition v t pl pr =
     (let pm = pl + (pr - pl) div 2;
          t1 = (if key_at v t pm < key_at v t pl then swap t pm pl else t);
          t2 = (if key_at v t1 pr < key_at v t1 pm then swap t1 pr pm else t1);
          t3 = (if key_at v t2 pm < key_at v t2 pl then swap t2 pm pl else t2);
          vp = key_at v t3 pm;
          t4 = swap t3 pm (pr - 1)
      in case partition_loop (length t) v vp t4 pl (pr - 1) of
           None \<Rightarrow> None
         | Some (t5, ip) \<Rightarrow> Some (swap t5 ip (pr - 1), ip))"

primrec aquicksort_range ::
  "nat \<Rightarrow> rat list \<Rightarrow> nat list \<Rightarrow> nat \<Rightarrow> nat \<Rightarrow> int \<Rightarrow> bool \<Rightarrow> nat list option" where
  "aquicksort_range 0 v t pl pr cdepth popped = None"
| "aquicksort_range (Suc n) v t pl pr cdepth popped =
     (if popped \<and> cdepth < 0 then None
      else if pr - pl > 16 then
        (case partition v t pl pr of
           None \<Rightarrow> None
         | Some (t6, ip) \<Rightarrow>
             if ip - pl < pr - ip then
               (case aquicksort_range n v t6 pl (ip - 1) (cdepth - 1) False of
                  None \<Rightarrow> None
                | Some t7 \<Rightarrow> aquicksort_range n v t7 (Suc ip) pr (cdepth - 1) True)
             else
               (case aquicksort_range n v t6 (Suc ip) pr (cdepth - 1) False of
                  None \<Rightarrow> None
                | Some t7 \<Rightarrow> aquicksort_range n v t7 pl (ip - 1) (cdepth - 1) True))
      else Some (insertion_sort v t pl pr))"

definition aquicksort :: "rat list \<Rightarrow> nat list option" where
  "aquicksort v =
     (let num = length v in
      if num = 0 then Some []
      else aquicksort_range num v [0..<num] 0 (num - 1) (2 * int (npy_get_msb num)) True)"

text \<open>
  \<^verbatim>\<open>nargsort(..., ascending=False)\<close>: the keys and their positions are reversed, sorted
  in ascending order by \<open>argsort\<close>, and the positions found are reversed again. Where
  \<open>argsort\<close> has no result there is no position.
\<close>

definition nargsort_desc :: "(rat list \<Rightarrow> nat list option) \<Rightarrow> sorter" where
  "nargsort_desc argsort ks =
     (case argsort (rev ks) of
        None \<Rightarrow> []
      | Some p \<Rightarrow> rev (map (\<lambda>i. rev [0..<length ks] ! i) p))"

definition numpy_desc :: sorter where
  "numpy_desc = nargsort_desc aquicksort"

text \<open>The distinct values of a list, in order of first appearance.\<close>

definition unique :: "'a list \<Rightarrow> 'a list" where
  "unique xs = rev (remdups (rev xs))"

definition dropna :: "'a option list \<Rightarrow> 'a list" where
  "dropna xs = map the (filter (\<lambda>x. x \<noteq> None) xs)"

text \<open>
  \<^verbatim>\<open>Series.value_counts()\<close>: the count of every distinct value, missing values left out,
  sorted by count, descending.
\<close>

definition value_counts :: "sorter \<Rightarrow> 'a option list \<Rightarrow> ('a \<times> int) list" where
  "value_counts srt xs =
     (let vals = dropna xs;
          counted = map (\<lambda>v. (v, int (count_list vals v))) (unique vals)
      in sort_values_desc srt (\<lambda>r. Some (of_int (snd r))) counted)"

text \<open>\<^verbatim>\<open>sort_index()\<close>: ascending by the value.\<close>

definition sort_index :: "('a::linorder \<times> int) list \<Rightarrow> ('a \<times> int) list" where
  "sort_index t = sort_key fst t"

section \<open>The script\<close>

definition startswith :: "string \<Rightarrow> string \<Rightarrow> bool" where
  "startswith s p = (take (length p) s = p)"

definition skill_cols :: "dataframe \<Rightarrow> string list" where
  "skill_cols df = filter (\<lambda>c. startswith c ''skill_'') (columns df)"

definition skills_count :: "dataframe \<Rightarrow> posting \<Rightarrow> int" where
  "skills_count df p = sum_list (map (\<lambda>c. b2i (skill p c)) (skill_cols df))"

definition n_total :: "dataframe \<Rightarrow> int" where
  "n_total df = int (length (rows df))"

text \<open>The columns of \<^verbatim>\<open>df\<close> once \<^verbatim>\<open>skills_count\<close> has been added to it.\<close>

definition df_columns :: "dataframe \<Rightarrow> string list" where
  "df_columns df =
     (if ''skills_count'' \<in> set (columns df) then columns df
      else columns df @ [''skills_count''])"

subsection \<open>1. \<^verbatim>\<open>fact_job_postings\<close>\<close>

datatype cell = Missing | Text string | Flag bool | Number int

definition cell_of :: "dataframe \<Rightarrow> posting \<Rightarrow> string \<Rightarrow> cell" where
  "cell_of df p c =
     (if c = ''skills_count'' then Number (skills_count df p)
      else if c = ''country_name'' then
        (case country_name p of None \<Rightarrow> Missing | Some s \<Rightarrow> Text s)
      else if c = ''experience_group'' then
        (case experience_group p of None \<Rightarrow> Missing | Some s \<Rightarrow> Text s)
      else if c = ''is_remote'' then
        (case is_remote p of None \<Rightarrow> Missing | Some b \<Rightarrow> Flag b)
      else Text (other p c))"

definition fact_cols :: "dataframe \<Rightarrow> string list" where
  "fact_cols df =
     filter (\<lambda>c. c \<in> set (df_columns df))
       [''id'', ''title'', ''country_name'', ''country_code'', ''experience_group'',
        ''is_remote'', ''is_full_time'', ''is_part_time'', ''is_contractor'',
        ''is_internship'', ''skills_count'', ''posted_at_datetime_utc'']"

definition fact_job_postings :: "dataframe \<Rightarrow> cell list list" where
  "fact_job_postings df = map (\<lambda>p. map (cell_of df p) (fact_cols df)) (rows df)"

subsection \<open>2 to 4 and 11. The distribution tables\<close>

record 'a dist_row =
  dr_value :: 'a
  dr_count :: int
  dr_share :: pyfloat

text \<open>\<^verbatim>\<open>t["share"] = t["count"] / t["count"].sum() * 100\<close>\<close>

definition with_share :: "int \<Rightarrow> ('a \<times> int) list \<Rightarrow> 'a dist_row list" where
  "with_share tot t =
     map (\<lambda>r. \<lparr>dr_value = fst r, dr_count = snd r,
               dr_share = fmul (truediv (of_int (snd r)) (of_int tot)) 100\<rparr>) t"

definition distribution :: "sorter \<Rightarrow> 'a option list \<Rightarrow> 'a dist_row list" where
  "distribution srt col =
     (let t = value_counts srt col in with_share (sum_list (map snd t)) t)"

definition agg_country :: "sorter \<Rightarrow> dataframe \<Rightarrow> string dist_row list" where
  "agg_country srt df = distribution srt (map country_name (rows df))"

definition agg_experience :: "sorter \<Rightarrow> dataframe \<Rightarrow> string dist_row list" where
  "agg_experience srt df = distribution srt (map experience_group (rows df))"

definition agg_remote :: "sorter \<Rightarrow> dataframe \<Rightarrow> bool dist_row list" where
  "agg_remote srt df = distribution srt (map is_remote (rows df))"

definition skills_count_dist :: "sorter \<Rightarrow> dataframe \<Rightarrow> int dist_row list" where
  "skills_count_dist srt df =
     with_share (n_total df)
       (sort_index (value_counts srt (map (\<lambda>p. Some (skills_count df p)) (rows df))))"

text \<open>The sum of the \<^verbatim>\<open>share\<close> column, defined when every share is a finite number.\<close>

definition share_sum :: "'a dist_row list \<Rightarrow> pyfloat" where
  "share_sum t =
     (if \<exists>r \<in> set t. dr_share r = None then None
      else Some (sum_list (map (\<lambda>r. the (dr_share r)) t)))"

subsection \<open>5. \<^verbatim>\<open>agg_top_skills\<close>\<close>

text \<open>\<^verbatim>\<open>str.replace("skill_", "", regex=False)\<close>: every occurrence is removed, left to right.\<close>

function str_replace_skill :: "string \<Rightarrow> string" where
  "str_replace_skill [] = []"
| "str_replace_skill (x # xs) =
     (if startswith (x # xs) ''skill_'' then str_replace_skill (drop 6 (x # xs))
      else x # str_replace_skill xs)"
  by pat_completeness auto
termination
  by (relation "measure length") auto

text \<open>The values of one skill column, as the numbers pandas sums: 1 for true, 0 for false.\<close>

definition flags :: "string \<Rightarrow> posting list \<Rightarrow> int list" where
  "flags c ps = map (\<lambda>p. b2i (skill p c)) ps"

record top_skills_row =
  ts_skill_name :: string
  ts_count :: int
  ts_share :: pyfloat
  ts_skill :: string

definition top_skills :: "sorter \<Rightarrow> dataframe \<Rightarrow> top_skills_row list" where
  "top_skills srt df =
     (let t = map (\<lambda>c. \<lparr>ts_skill_name = c,
                          ts_count = sum_list (flags c (rows df)),
                          ts_share = fmul (mean (flags c (rows df))) 100,
                          ts_skill = str_replace_skill c\<rparr>) (skill_cols df)
      in sort_values_desc srt (\<lambda>r. Some (of_int (ts_count r))) t)"

subsection \<open>6. \<^verbatim>\<open>agg_skills_by_country\<close>\<close>

text \<open>\<^verbatim>\<open>groupby\<close>: the distinct keys in ascending order, missing keys left out.\<close>

definition group_keys :: "'a::linorder option list \<Rightarrow> 'a list" where
  "group_keys col = sort (remdups (dropna col))"

definition country_group :: "dataframe \<Rightarrow> string \<Rightarrow> posting list" where
  "country_group df g = filter (\<lambda>p. country_name p = Some g) (rows df)"

text \<open>
  A wide frame, as the transposed group-by results are: the index holds the skill column
  names, and every other column is a group label with one value per skill.
\<close>

record 'v wide =
  w_index :: "string list"
  w_cols :: "(string \<times> 'v list) list"

definition skills_by_country :: "dataframe \<Rightarrow> int wide" where
  "skills_by_country df =
     \<lparr>w_index = skill_cols df,
      w_cols = map (\<lambda>g. (g, map (\<lambda>c. sum_list (flags c (country_group df g))) (skill_cols df)))
                 (group_keys (map country_name (rows df)))\<rparr>"

text \<open>\<^verbatim>\<open>melt(id_vars="skill_name")\<close>: one block of rows per value column.\<close>

definition melt :: "'v wide \<Rightarrow> (string \<times> string \<times> 'v) list" where
  "melt w = concat (map (\<lambda>(g, vals). map (\<lambda>(c, v). (c, g, v)) (zip (w_index w) vals)) (w_cols w))"

definition country_totals :: "dataframe \<Rightarrow> (string \<times> int) list" where
  "country_totals df =
     map (\<lambda>g. (g, int (length (country_group df g)))) (group_keys (map country_name (rows df)))"

text \<open>
  The \<^verbatim>\<open>lambda r\<close> of the \<^verbatim>\<open>apply\<close>: \<^verbatim>\<open>country_totals[...]\<close> on a label that is not in the
  series raises KeyError.
\<close>

definition country_share :: "(string \<times> int) list \<Rightarrow> string \<Rightarrow> int \<Rightarrow> error + pyfloat" where
  "country_share totals g cnt =
     (case map_of totals g of
        None \<Rightarrow> Inl KeyError
      | Some tot \<Rightarrow>
          Inr (if tot > 0 then fmul (truediv (of_int cnt) (of_int tot)) 100 else Some 0))"

record skills_by_country_row =
  sc_skill_name :: string
  sc_country_name :: string
  sc_count :: int
  sc_share :: pyfloat
  sc_skill :: string

text \<open>The row function run on every row in turn; the first error ends the run.\<close>

fun each_row :: "('a \<Rightarrow> error + 'b) \<Rightarrow> 'a list \<Rightarrow> error + 'b list" where
  "each_row f [] = Inr []"
| "each_row f (x # xs) =
     (case f x of
        Inl e \<Rightarrow> Inl e
      | Inr y \<Rightarrow> (case each_row f xs of Inl e \<Rightarrow> Inl e | Inr ys \<Rightarrow> Inr (y # ys)))"

text \<open>
  \<^verbatim>\<open>long["share"] = long.apply(..., axis=1)\<close>. On a frame with no rows \<^verbatim>\<open>apply\<close> does not
  give a column: it tries the row function on a row of missing values, where the lookup
  \<^verbatim>\<open>country_totals[nan]\<close> fails, drops that failure and returns a copy of the frame.
  Assigning a frame of three columns to the one column \<^verbatim>\<open>share\<close> raises ValueError.
\<close>

definition apply_rows :: "('a \<Rightarrow> error + 'b) \<Rightarrow> 'a list \<Rightarrow> error + 'b list" where
  "apply_rows f xs = (if xs = [] then Inl ValueError else each_row f xs)"

definition agg_skills_by_country :: "dataframe \<Rightarrow> error + skills_by_country_row list" where
  "agg_skills_by_country df =
     apply_rows
       (\<lambda>(c, g, cnt).
          case country_share (country_totals df) g cnt of
            Inl e \<Rightarrow> Inl e
          | Inr s \<Rightarrow> Inr \<lparr>sc_skill_name = c, sc_country_name = g, sc_count = cnt,
                         sc_share = s, sc_skill = str_replace_skill c\<rparr>)
       (melt (skills_by_country df))"

subsection \<open>7 and 8. \<^verbatim>\<open>agg_skills_by_experience\<close> and \<^verbatim>\<open>agg_skills_gap\<close>\<close>

definition experience_rows :: "dataframe \<Rightarrow> string \<Rightarrow> posting list" where
  "experience_rows df g = filter (\<lambda>p. experience_group p = Some g) (rows df)"

definition group_share :: "dataframe \<Rightarrow> string \<Rightarrow> string \<Rightarrow> pyfloat" where
  "group_share df g c = fmul (mean (flags c (experience_rows df g))) 100"

definition skills_by_exp :: "dataframe \<Rightarrow> pyfloat wide" where
  "skills_by_exp df =
     \<lparr>w_index = skill_cols df,
      w_cols = map (\<lambda>g. (g, map (group_share df g) (skill_cols df)))
                 (group_keys (map experience_group (rows df)))\<rparr>"

text \<open>
  After the transposition the group labels are the column names of the frame.
  \<^verbatim>\<open>frame[name]\<close>: KeyError when the frame has no such column.
\<close>

definition getcol :: "'v wide \<Rightarrow> string \<Rightarrow> error + 'v list" where
  "getcol w name = (case map_of (w_cols w) name of None \<Rightarrow> Inl KeyError | Some vals \<Rightarrow> Inr vals)"

definition rename_share :: "string \<Rightarrow> string" where
  "rename_share g =
     (if g = ''junior'' then ''junior_share''
      else if g = ''mid_plus'' then ''mid_plus_share'' else g)"

record gap_row =
  g_skill_name :: string
  g_shares :: "(string \<times> pyfloat) list"
  g_gap :: pyfloat
  g_skill :: string

definition gap_rows :: "pyfloat wide \<Rightarrow> pyfloat list \<Rightarrow> gap_row list" where
  "gap_rows w gap =
     map (\<lambda>i. \<lparr>g_skill_name = w_index w ! i,
               g_shares = map (\<lambda>(g, vals). (rename_share g, vals ! i)) (w_cols w),
               g_gap = gap ! i,
               g_skill = str_replace_skill (w_index w ! i)\<rparr>)
       [0..<length (w_index w)]"

definition agg_skills_gap :: "sorter \<Rightarrow> dataframe \<Rightarrow> error + gap_row list" where
  "agg_skills_gap srt df =
     (let gap_df = skills_by_exp df in
      case getcol gap_df ''mid_plus'' of
        Inl e \<Rightarrow> Inl e
      | Inr mid \<Rightarrow>
          (case getcol gap_df ''junior'' of
             Inl e \<Rightarrow> Inl e
           | Inr jun \<Rightarrow>
               Inr (sort_values_desc srt (\<lambda>r. map_option abs (g_gap r))
                      (gap_rows gap_df (map2 fsub mid jun)))))"

subsection \<open>9. \<^verbatim>\<open>agg_skill_categories\<close>\<close>

definition SKILL_CATEGORIES :: "(string \<times> string list) list" where
  "SKILL_CATEGORIES =
     [(''Programming'', [''sql'', ''python'', ''r'']),
      (''Spreadsheets'', [''excel'', ''google_sheets'']),
      (''Databases'',
        [''postgresql'', ''mysql'', ''oracle'', ''sql_server'', ''bigquery'',
         ''snowflake'', ''redshift'', ''vertica'', ''clickhouse'', ''databricks'', ''synapse'']),
      (''Visualisation & BI Tools'',
        [''dashboards'', ''data_visualization'', ''power_bi'', ''tableau'', ''looker'',
         ''qlik'', ''datalens'', ''superset'']),
      (''Data Engineering'',
        [''airflow'', ''hadoop'', ''spark'', ''kafka'', ''dbt'',
         ''talend'', ''informatica'', ''etl'', ''data_pipeline'']),
      (''AI/ML Tools'', [''chatgpt'', ''claude'', ''cursor'', ''copilot'', ''gemini'']),
      (''Statistics'',
        [''statistics'', ''a_b_testing'', ''experimentation'',
         ''hypothesis_testing'', ''data_cleaning''])]"

definition category_cols :: "dataframe \<Rightarrow> string list \<Rightarrow> string list" where
  "category_cols df skills =
     filter (\<lambda>c. c \<in> set (df_columns df)) (map (\<lambda>s. ''skill_'' @ s) skills)"

text \<open>
  \<^verbatim>\<open>df[cols].max(axis=1)\<close> for one posting. The script takes it only when \<^verbatim>\<open>cols\<close> is not
  empty.
\<close>

fun row_max :: "bool list \<Rightarrow> bool" where
  "row_max [] = False"
| "row_max (x # xs) = fold max xs x"

definition mentioned :: "dataframe \<Rightarrow> string list \<Rightarrow> int list" where
  "mentioned df cols = map (\<lambda>p. b2i (row_max (map (skill p) cols))) (rows df)"

text \<open>
  The two dictionaries of the loop, for a taxonomy \<open>tax\<close>; the script runs it on
  \<open>SKILL_CATEGORIES\<close>.
\<close>

definition category_share :: "(string \<times> string list) list \<Rightarrow> dataframe \<Rightarrow> (string \<times> pyfloat) list" where
  "category_share tax df =
     concat (map (\<lambda>(category, skills).
       let cols = category_cols df skills in
       if cols \<noteq> [] then [(category, fmul (mean (mentioned df cols)) 100)] else []) tax)"

definition category_count :: "(string \<times> string list) list \<Rightarrow> dataframe \<Rightarrow> (string \<times> int) list" where
  "category_count tax df =
     concat (map (\<lambda>(category, skills).
       let cols = category_cols df skills in
       if cols \<noteq> [] then [(category, sum_list (mentioned df cols))] else []) tax)"

record category_row =
  ca_skill_category :: string
  ca_share :: pyfloat
  ca_count :: "int option"

text \<open>\<^verbatim>\<open>Series.map(category_count)\<close> leaves a missing value where the dictionary has no key.\<close>

definition agg_categories_of ::
  "sorter \<Rightarrow> (string \<times> string list) list \<Rightarrow> dataframe \<Rightarrow> category_row list" where
  "agg_categories_of srt tax df =
     map (\<lambda>(cat, sh). \<lparr>ca_skill_category = cat, ca_share = sh,
                       ca_count = map_of (category_count tax df) cat\<rparr>)
       (sort_values_desc srt snd (category_share tax df))"

definition agg_categories :: "sorter \<Rightarrow> dataframe \<Rightarrow> category_row list" where
  "agg_categories srt df = agg_categories_of srt SKILL_CATEGORIES df"

subsection \<open>\<^verbatim>\<open>main\<close>\<close>

text \<open>
  \<^verbatim>\<open>main\<close> computes and writes the tables one after the other, in the order of the script.
  An error ends the run: the tables before it are written, the later ones are not. Only
  tables 6 and 8 can raise, so a run that passes table 8 reaches its end, and \<open>main_of\<close> gives
  the tables of such a run. Tables 7, 10 and 12 are not part of the result.
\<close>

record outputs =
  out_fact_job_postings :: "cell list list"
  out_agg_country :: "string dist_row list"
  out_agg_experience :: "string dist_row list"
  out_agg_remote :: "bool dist_row list"
  out_agg_top_skills :: "top_skills_row list"
  out_agg_skills_by_country :: "skills_by_country_row list"
  out_agg_skills_gap :: "gap_row list"
  out_agg_skill_categories :: "category_row list"
  out_agg_skills_count_dist :: "int dist_row list"

definition main_of :: "sorter \<Rightarrow> (string \<times> string list) list \<Rightarrow> dataframe \<Rightarrow> error + outputs" where
  "main_of srt tax df =
     (case agg_skills_by_country df of
        Inl e \<Rightarrow> Inl e
      | Inr by_country \<Rightarrow>
          (case agg_skills_gap srt df of
             Inl e \<Rightarrow> Inl e
           | Inr gap \<Rightarrow>
               Inr \<lparr>out_fact_job_postings = fact_job_postings df,
                    out_agg_country = agg_country srt df,
                    out_agg_experience = agg_experience srt df,
                    out_agg_remote = agg_remote srt df,
                    out_agg_top_skills = top_skills srt df,
                    out_agg_skills_by_country = by_country,
                    out_agg_skills_gap = gap,
                    out_agg_skill_categories = agg_categories_of srt tax df,
                    out_agg_skills_count_dist = skills_count_dist srt df\<rparr>))"

definition main :: "sorter \<Rightarrow> dataframe \<Rightarrow> error + outputs" where
  "main srt df = main_of srt SKILL_CATEGORIES df"

section \<open>Example inputs\<close>

definition mk_posting :: "string option \<Rightarrow> string option \<Rightarrow> string list \<Rightarrow> posting" where
  "mk_posting country grp skills =
     \<lparr>country_name = country, experience_group = grp, is_remote = Some False,
      skill = (\<lambda>c. c \<in> set skills), other = (\<lambda>c. [])\<rparr>"

text \<open>Three postings with the columns \<^verbatim>\<open>skill_sql\<close> and \<^verbatim>\<open>skill_python\<close>.\<close>

definition three_postings :: dataframe where
  "three_postings =
     \<lparr>columns = [''id'', ''country_name'', ''experience_group'', ''is_remote'',
                 ''skill_sql'', ''skill_python'', ''posted_at_datetime_utc''],
      rows = [mk_posting (Some ''US'') (Some ''junior'') [''skill_sql''],
              mk_posting (Some ''US'') (Some ''mid_plus'') [''skill_sql'', ''skill_python''],
              mk_posting (Some ''DE'') (Some ''junior'') []]\<rparr>"

text \<open>One posting whose country, experience group and remote flag are missing.\<close>

definition blank_posting :: dataframe where
  "blank_posting =
     \<lparr>columns = [''country_name'', ''experience_group'', ''is_remote'', ''skill_sql'',
                 ''posted_at_datetime_utc''],
      rows = [\<lparr>country_name = None, experience_group = None, is_remote = None,
               skill = (\<lambda>c. False), other = (\<lambda>c. [])\<rparr>]\<rparr>"

text \<open>Two skill columns that no posting mentions.\<close>

definition tied_skills :: dataframe where
  "tied_skills =
     \<lparr>columns = [''country_name'', ''experience_group'', ''is_remote'', ''skill_sql'',
                 ''skill_python'', ''posted_at_datetime_utc''],
      rows = [mk_posting (Some ''US'') (Some ''junior'') []]\<rparr>"



section \<open>Properties\<close>

subsection \<open>The sorting routines\<close>


lemma mset_take_rows:
  assumes "sorts_descending srt"
  shows "mset (take_rows xs (srt (map k xs))) = mset xs"
proof -
  from assms have "mset (srt (map k xs)) = mset [0..<length xs]"
    by (simp add: sorts_descending_def)
  then have "image_mset (\<lambda>i. xs ! i) (mset (srt (map k xs))) = image_mset (\<lambda>i. xs ! i) (mset [0..<length xs])"
    by simp
  then have "mset (map (\<lambda>i. xs ! i) (srt (map k xs))) = mset (map (\<lambda>i. xs ! i) [0..<length xs])"
    by simp
  then show ?thesis
    by (simp add: take_rows_def map_nth)
qed


lemma mset_sort_values_desc:
  assumes "sorts_descending srt"
  shows "mset (sort_values_desc srt key xs) = mset xs"
proof -
  have "mset (filter (\<lambda>x. key x \<noteq> None) xs) + mset (filter (\<lambda>x. key x = None) xs) = mset xs"
    by (induction xs) auto
  then show ?thesis
    by (simp add: sort_values_desc_def Let_def mset_take_rows [OF assms])
qed


lemma zip_upt_nth:
  assumes "p \<in> set (zip ks [0..<length ks])"
  shows "fst p = ks ! snd p"
  using assms by (auto simp: in_set_zip)

lemma sorts_descending_stable_desc: "sorts_descending stable_desc"
  unfolding sorts_descending_def
proof (intro allI conjI)
  fix ks :: "rat list"
  let ?zs = "zip ks [0..<length ks]"
  let ?S = "sort_key (\<lambda>p. - fst p) ?zs"
  have e: "map snd ?zs = [0..<length ks]"
    by simp
  have "mset (map snd ?S) = image_mset snd (mset ?S)"
    by (rule mset_map)
  also have "\<dots> = image_mset snd (mset ?zs)"
    by (simp only: mset_sort)
  also have "\<dots> = mset (map snd ?zs)"
    by (rule mset_map [symmetric])
  finally show "mset (stable_desc ks) = mset [0..<length ks]"
    by (simp only: stable_desc_def e)
  have m: "map (\<lambda>i. ks ! i) (map snd ?S) = map fst ?S"
    using zip_upt_nth [of _ ks] by auto
  have "sorted (map (\<lambda>p. - fst p) ?S)"
    by (rule sorted_sort_key)
  then have "sorted_wrt (\<lambda>a b. a \<ge> b) (map fst ?S)"
    by (simp add: sorted_wrt_map sorted_map)
  then show "sorted_wrt (\<lambda>a b. a \<ge> b) (map (\<lambda>i. ks ! i) (stable_desc ks))"
    by (simp only: stable_desc_def m)
qed

subsection \<open>The fact table\<close>

text \<open>
  Claim C6. The fact table \<^verbatim>\<open>fact_job_postings\<close> has exactly as many rows as the input frame:
  it is a selection of columns, with no aggregation and no filtering of rows.
\<close>

theorem fact_job_postings_row_count: "length (fact_job_postings df) = length (rows df)"
  by (simp add: fact_job_postings_def)

subsection \<open>The distribution tables\<close>

lemma set_unique: "set (unique xs) = set xs"
  by (simp add: unique_def)

lemma distinct_unique: "distinct (unique xs)"
  by (simp add: unique_def)

lemma sum_counts_unique: "sum_list (map (\<lambda>v. int (count_list xs v)) (unique xs)) = int (length xs)"
proof -
  have "sum_list (map (\<lambda>v. int (count_list xs v)) (unique xs)) = (\<Sum>v\<in>set xs. int (count_list xs v))"
    using sum_list_distinct_conv_sum_set [OF distinct_unique, of "\<lambda>v. int (count_list xs v)" xs]
    by (simp add: set_unique)
  also have "\<dots> = int (\<Sum>v\<in>set xs. count_list xs v)"
    by simp
  also have "\<dots> = int (length xs)"
    by (simp add: sum_count_set)
  finally show ?thesis .
qed

lemma sum_list_mset_cong:
  fixes f :: "'a \<Rightarrow> 'b::comm_monoid_add"
  assumes "mset xs = mset ys"
  shows "sum_list (map f xs) = sum_list (map f ys)"
proof -
  have "sum_list (map f xs) = sum_mset (image_mset f (mset xs))"
    by (simp flip: sum_mset_sum_list)
  also have "\<dots> = sum_mset (image_mset f (mset ys))"
    by (simp only: assms)
  also have "\<dots> = sum_list (map f ys)"
    by (simp flip: sum_mset_sum_list)
  finally show ?thesis .
qed

lemma mset_value_counts:
  assumes "sorts_descending srt"
  shows "mset (value_counts srt col) =
    mset (map (\<lambda>v. (v, int (count_list (dropna col) v))) (unique (dropna col)))"
  by (simp only: value_counts_def Let_def mset_sort_values_desc [OF assms])

lemma sum_value_counts:
  assumes "sorts_descending srt"
  shows "sum_list (map snd (value_counts srt col)) = int (length (dropna col))"
proof -
  have "sum_list (map snd (value_counts srt col)) =
      sum_list (map snd (map (\<lambda>v. (v, int (count_list (dropna col) v))) (unique (dropna col))))"
    by (rule sum_list_mset_cong [OF mset_value_counts [OF assms]])
  also have "\<dots> = int (length (dropna col))"
    using sum_counts_unique [of "dropna col"] by (simp add: comp_def)
  finally show ?thesis .
qed

lemma share_sum_with_share:
  assumes "tot \<noteq> 0"
  shows "share_sum (with_share tot t) = Some (of_int (sum_list (map snd t)) / of_int tot * 100)"
proof -
  have none: "\<not> (\<exists>r \<in> set (with_share tot t). dr_share r = None)"
    using assms by (auto simp: with_share_def truediv_def fmul_def)
  have "sum_list (map (\<lambda>r. the (dr_share r)) (with_share tot t)) =
      of_int (sum_list (map snd t)) / of_int tot * 100"
    using assms
    by (induction t) (simp_all add: with_share_def truediv_def fmul_def add_divide_distrib distrib_right)
  with none show ?thesis
    by (simp add: share_sum_def)
qed

lemma length_dropna_pos:
  assumes "\<exists>v. Some v \<in> set col"
  shows "0 < length (dropna col)"
proof -
  from assms obtain v where "Some v \<in> set col" ..
  then have "Some v \<in> set (filter (\<lambda>x. x \<noteq> None) col)"
    by simp
  then have "filter (\<lambda>x. x \<noteq> None) col \<noteq> []"
    by (metis empty_iff empty_set)
  then show ?thesis
    by (simp add: dropna_def)
qed

lemma share_sum_distribution:
  assumes "sorts_descending srt" "\<exists>v. Some v \<in> set col"
  shows "share_sum (distribution srt col) = Some 100"
proof -
  let ?n = "int (length (dropna col))"
  have n: "?n \<noteq> 0"
    using length_dropna_pos [OF assms(2)] by simp
  have s: "sum_list (map snd (value_counts srt col)) = ?n"
    by (rule sum_value_counts [OF assms(1)])
  have "share_sum (with_share ?n (value_counts srt col)) =
      Some (of_int (sum_list (map snd (value_counts srt col))) / of_int ?n * 100)"
    by (rule share_sum_with_share [OF n])
  then show ?thesis
    using n by (simp add: distribution_def Let_def s)
qed

lemma dropna_map_Some: "dropna (map (\<lambda>p. Some (f p)) ps) = map f ps"
  by (induction ps) (simp_all add: dropna_def)

lemma share_sum_skills_count_dist:
  assumes "sorts_descending srt" "rows df \<noteq> []"
  shows "share_sum (skills_count_dist srt df) = Some 100"
proof -
  let ?vc = "value_counts srt (map (\<lambda>p. Some (skills_count df p)) (rows df))"
  have n: "n_total df \<noteq> 0"
    using assms(2) by (simp add: n_total_def)
  have "sum_list (map snd (sort_index ?vc)) = sum_list (map snd ?vc)"
    by (rule sum_list_mset_cong) (simp add: sort_index_def)
  also have "\<dots> = n_total df"
    by (simp add: sum_value_counts [OF assms(1)] dropna_map_Some n_total_def)
  finally have s: "sum_list (map snd (sort_index ?vc)) = n_total df" .
  have "share_sum (with_share (n_total df) (sort_index ?vc)) =
      Some (of_int (sum_list (map snd (sort_index ?vc))) / of_int (n_total df) * 100)"
    by (rule share_sum_with_share [OF n])
  then show ?thesis
    using n by (simp add: skills_count_dist_def s)
qed

text \<open>
  Claim C1, as the script has it. With any sorting routine that sorts, the shares of
  \<^verbatim>\<open>agg_country\<close>, \<^verbatim>\<open>agg_experience\<close> and \<^verbatim>\<open>agg_remote\<close> sum to 100 as soon as one posting
  has a value in the column the table counts, and the shares of \<^verbatim>\<open>agg_skills_count_dist\<close>
  sum to 100 as soon as there is one posting. The sum is exact here, floats being rationals.
\<close>

theorem share_normalization:
  assumes "sorts_descending srt"
  shows "((\<exists>c. Some c \<in> set (map country_name (rows df))) \<longrightarrow>
            share_sum (agg_country srt df) = Some 100) \<and>
         ((\<exists>g. Some g \<in> set (map experience_group (rows df))) \<longrightarrow>
            share_sum (agg_experience srt df) = Some 100) \<and>
         ((\<exists>b. Some b \<in> set (map is_remote (rows df))) \<longrightarrow>
            share_sum (agg_remote srt df) = Some 100) \<and>
         (rows df \<noteq> [] \<longrightarrow> share_sum (skills_count_dist srt df) = Some 100)"
proof (intro conjI impI)
  assume "\<exists>c. Some c \<in> set (map country_name (rows df))"
  then show "share_sum (agg_country srt df) = Some 100"
    unfolding agg_country_def by (rule share_sum_distribution [OF assms])
next
  assume "\<exists>g. Some g \<in> set (map experience_group (rows df))"
  then show "share_sum (agg_experience srt df) = Some 100"
    unfolding agg_experience_def by (rule share_sum_distribution [OF assms])
next
  assume "\<exists>b. Some b \<in> set (map is_remote (rows df))"
  then show "share_sum (agg_remote srt df) = Some 100"
    unfolding agg_remote_def by (rule share_sum_distribution [OF assms])
next
  assume "rows df \<noteq> []"
  then show "share_sum (skills_count_dist srt df) = Some 100"
    by (rule share_sum_skills_count_dist [OF assms])
qed

theorem share_normalization_witness:
  "share_sum (agg_country stable_desc three_postings) = Some 100 \<and>
   share_sum (agg_experience stable_desc three_postings) = Some 100 \<and>
   share_sum (agg_remote stable_desc three_postings) = Some 100 \<and>
   share_sum (skills_count_dist stable_desc three_postings) = Some 100"
proof -
  have c: "\<exists>c. Some c \<in> set (map country_name (rows three_postings))"
    by (rule exI [of _ "''US''"]) (simp add: three_postings_def mk_posting_def)
  have g: "\<exists>g. Some g \<in> set (map experience_group (rows three_postings))"
    by (rule exI [of _ "''junior''"]) (simp add: three_postings_def mk_posting_def)
  have b: "\<exists>b. Some b \<in> set (map is_remote (rows three_postings))"
    by (rule exI [of _ False]) (simp add: three_postings_def mk_posting_def)
  have r: "rows three_postings \<noteq> []"
    by (simp add: three_postings_def)
  from share_normalization [OF sorts_descending_stable_desc, of three_postings] c g b r
  show ?thesis by blast
qed

text \<open>
  A frame with a posting is not enough for the first three tables: \<^verbatim>\<open>value_counts()\<close> leaves
  missing values out, so a frame whose postings all lack the country gives an empty
  \<^verbatim>\<open>agg_country\<close>, whose shares sum to 0.
\<close>

theorem share_normalization_counterexample:
  "rows blank_posting \<noteq> [] \<and> agg_country stable_desc blank_posting = [] \<and>
   share_sum (agg_country stable_desc blank_posting) = Some 0"
  by (simp add: agg_country_def distribution_def value_counts_def blank_posting_def
     dropna_def unique_def sort_values_desc_def stable_desc_def take_rows_def with_share_def share_sum_def)

lemma dr_value_with_share: "map dr_value (with_share tot t) = map fst t"
  by (simp add: with_share_def comp_def)

lemma distinct_value_counts_keys:
  assumes "sorts_descending srt"
  shows "distinct (map fst (value_counts srt col))"
proof -
  have "mset (map fst (value_counts srt col)) = image_mset fst (mset (value_counts srt col))"
    by (rule mset_map)
  also have "\<dots> = mset (map fst (map (\<lambda>v. (v, int (count_list (dropna col) v))) (unique (dropna col))))"
    by (simp only: mset_value_counts [OF assms] mset_map)
  also have "\<dots> = mset (unique (dropna col))"
    by (simp add: comp_def)
  finally have "mset (map fst (value_counts srt col)) = mset (unique (dropna col))" .
  then show ?thesis
    using distinct_unique [of "dropna col"] by (metis mset_eq_imp_distinct_iff)
qed

text \<open>
  Claim C8. The rows of \<^verbatim>\<open>agg_skills_count_dist\<close> are in ascending order of
  \<^verbatim>\<open>skills_count\<close>; no value occurs twice, so the order is strict.
\<close>

theorem skills_count_dist_ascending:
  assumes "sorts_descending srt"
  shows "sorted (map dr_value (skills_count_dist srt df)) \<and>
         distinct (map dr_value (skills_count_dist srt df))"
proof
  show "sorted (map dr_value (skills_count_dist srt df))"
    by (simp only: skills_count_dist_def dr_value_with_share sort_index_def sorted_sort_key)
  let ?vc = "value_counts srt (map (\<lambda>p. Some (skills_count df p)) (rows df))"
  have "distinct (map fst ?vc)"
    by (rule distinct_value_counts_keys [OF assms])
  then have "distinct (map fst (sort_key fst ?vc))"
    by (metis mset_eq_imp_distinct_iff mset_map mset_sort)
  then show "distinct (map dr_value (skills_count_dist srt df))"
    by (simp only: skills_count_dist_def dr_value_with_share sort_index_def)
qed

theorem skills_count_dist_ascending_witness:
  "map dr_value (skills_count_dist stable_desc three_postings) = [0, 1, 2] \<and>
   sorted (map dr_value (skills_count_dist stable_desc three_postings)) \<and>
   distinct (map dr_value (skills_count_dist stable_desc three_postings))"
proof -
  have "map dr_value (skills_count_dist stable_desc three_postings) = [0, 1, 2]"
    by (simp add: skills_count_dist_def three_postings_def mk_posting_def value_counts_def
        dropna_def unique_def sort_values_desc_def stable_desc_def take_rows_def with_share_def
        sort_index_def skills_count_def skill_cols_def startswith_def b2i_def)
  with skills_count_dist_ascending [OF sorts_descending_stable_desc, of three_postings]
  show ?thesis by simp
qed

subsection \<open>Skills by country\<close>


lemma set_dropna: "set (dropna col) = {v. Some v \<in> set col}"
  by (induction col) (auto simp: dropna_def)

lemma set_group_keys: "set (group_keys col) = {v. Some v \<in> set col}"
  by (simp add: group_keys_def set_dropna)










lemma three_postings_by_country:
  "agg_skills_by_country three_postings =
     Inr [\<lparr>sc_skill_name = ''skill_sql'', sc_country_name = ''DE'',
            sc_count = 0, sc_share = Some 0, sc_skill = ''sql''\<rparr>,
          \<lparr>sc_skill_name = ''skill_python'', sc_country_name = ''DE'',
            sc_count = 0, sc_share = Some 0, sc_skill = ''python''\<rparr>,
          \<lparr>sc_skill_name = ''skill_sql'', sc_country_name = ''US'',
            sc_count = 2, sc_share = Some 100, sc_skill = ''sql''\<rparr>,
          \<lparr>sc_skill_name = ''skill_python'', sc_country_name = ''US'',
            sc_count = 1, sc_share = Some 50, sc_skill = ''python''\<rparr>]"
  by (simp add: agg_skills_by_country_def apply_rows_def melt_def skills_by_country_def
      country_totals_def country_share_def country_group_def group_keys_def dropna_def
      flags_def b2i_def skill_cols_def startswith_def truediv_def fmul_def
      three_postings_def mk_posting_def)






subsection \<open>Top skills\<close>




text \<open>
  The order of equal counts is the sorting routine's, and the routine of numpy is not stable.
  With eighteen skill columns that no posting mentions, all counts are 0: numpy partitions
  the eighteen positions once, which moves equal keys past each other, and the skills from
  the third to the seventeenth come out in the reverse of their column order. With two
  columns the range is sorted by insertion and the column order is kept.
\<close>

lemma three_postings_top_skills_numpy:
  "map (\<lambda>r. (ts_skill r, ts_count r)) (top_skills numpy_desc three_postings) =
     [(''sql'', 2), (''python'', 1)]"
  by code_simp

lemma tied_skills_top_skills_numpy:
  "map ts_skill_name (top_skills numpy_desc tied_skills) = [''skill_sql'', ''skill_python'']"
  by code_simp


subsection \<open>Skills by experience group and the gap\<close>

lemma map_of_keyed:
  "map_of (map (\<lambda>g. (g, f g)) ks) k = (if k \<in> set ks then Some (f k) else None)"
  by (induction ks) auto

lemma getcol_skills_by_exp:
  "getcol (skills_by_exp df) name =
     (if Some name \<in> set (map experience_group (rows df))
      then Inr (map (group_share df name) (skill_cols df)) else Inl KeyError)"
  by (simp add: getcol_def skills_by_exp_def map_of_keyed set_group_keys)

text \<open>
  Claim C9. When the column \<^verbatim>\<open>experience_group\<close> does not hold both \<^verbatim>\<open>junior\<close> and
  \<^verbatim>\<open>mid_plus\<close>, the computation of \<^verbatim>\<open>agg_skills_gap\<close> fails with a KeyError, the lookup of the
  missing group's column, and gives no table.
\<close>

theorem skills_gap_missing_group:
  assumes "\<not> (Some ''junior'' \<in> set (map experience_group (rows df)) \<and>
              Some ''mid_plus'' \<in> set (map experience_group (rows df)))"
  shows "agg_skills_gap srt df = Inl KeyError"
  using assms by (auto simp: agg_skills_gap_def Let_def getcol_skills_by_exp)

theorem skills_gap_missing_group_witness:
  "Some ''mid_plus'' \<notin> set (map experience_group (rows tied_skills)) \<and>
   agg_skills_gap stable_desc tied_skills = Inl KeyError"
proof -
  have "Some ''mid_plus'' \<notin> set (map experience_group (rows tied_skills))"
    by (simp add: tied_skills_def mk_posting_def)
  then show ?thesis
    using skills_gap_missing_group [of tied_skills stable_desc] by blast
qed










subsection \<open>Skill categories\<close>

lemma fold_max_bool: "fold max xs a = (a \<or> (\<exists>b \<in> set xs. b))"
  by (induction xs arbitrary: a) (auto simp: max_def)

lemma row_max_iff: "xs \<noteq> [] \<Longrightarrow> row_max xs = (\<exists>b \<in> set xs. b)"
  by (cases xs) (auto simp: fold_max_bool)

lemma mentioned_any:
  assumes "cols \<noteq> []"
  shows "mentioned df cols = map (\<lambda>p. b2i (\<exists>c \<in> set cols. skill p c)) (rows df)"
  using assms by (simp add: mentioned_def row_max_iff)

lemma sum_b2i_bounds:
  "0 \<le> sum_list (map (\<lambda>p. b2i (P p)) ps) \<and> sum_list (map (\<lambda>p. b2i (P p)) ps) \<le> int (length ps)"
  by (induction ps) (auto simp: b2i_def)

lemma category_count_filter:
  "category_count tax df =
     map (\<lambda>(cat, skills). (cat, sum_list (mentioned df (category_cols df skills))))
       (filter (\<lambda>(cat, skills). category_cols df skills \<noteq> []) tax)"
  by (induction tax) (auto simp: category_count_def Let_def)

lemma category_share_filter:
  "category_share tax df =
     map (\<lambda>(cat, skills). (cat, fmul (mean (mentioned df (category_cols df skills))) 100))
       (filter (\<lambda>(cat, skills). category_cols df skills \<noteq> []) tax)"
  by (induction tax) (auto simp: category_share_def Let_def)

lemma distinct_category_count:
  assumes "distinct (map fst tax)"
  shows "distinct (map fst (category_count tax df))"
proof -
  have "map fst (category_count tax df) =
      map fst (filter (\<lambda>(cat, skills). category_cols df skills \<noteq> []) tax)"
    by (simp add: category_count_filter comp_def case_prod_unfold)
  with assms show ?thesis
    by (simp add: distinct_map_filter)
qed

lemma map_of_category_count:
  assumes "distinct (map fst tax)" "(cat, skills) \<in> set tax" "category_cols df skills \<noteq> []"
  shows "map_of (category_count tax df) cat =
           Some (sum_list (mentioned df (category_cols df skills)))"
proof -
  from assms(2,3)
  have "(cat, sum_list (mentioned df (category_cols df skills))) \<in> set (category_count tax df)"
    by (force simp: category_count_filter)
  with distinct_category_count [OF assms(1)] show ?thesis
    by simp
qed

lemma in_category_share:
  assumes "(cat, sh) \<in> set (category_share tax df)"
  shows "\<exists>skills. (cat, skills) \<in> set tax \<and> category_cols df skills \<noteq> [] \<and>
           sh = fmul (mean (mentioned df (category_cols df skills))) 100"
  using assms by (auto simp: category_share_filter)


lemma set_agg_categories_of:
  assumes "sorts_descending srt"
  shows "set (agg_categories_of srt tax df) =
     (\<lambda>(cat, sh). \<lparr>ca_skill_category = cat, ca_share = sh,
                    ca_count = map_of (category_count tax df) cat\<rparr>) ` set (category_share tax df)"
proof -
  have "set (sort_values_desc srt snd (category_share tax df)) = set (category_share tax df)"
    by (rule mset_eq_setD) (rule mset_sort_values_desc [OF assms])
  then show ?thesis
    by (simp add: agg_categories_of_def)
qed

lemma distinct_SKILL_CATEGORIES: "distinct (map fst SKILL_CATEGORIES)"
  by (simp add: SKILL_CATEGORIES_def)

lemma three_postings_categories:
  "agg_categories stable_desc three_postings =
     [\<lparr>ca_skill_category = ''Programming'', ca_share = Some (200 / 3), ca_count = Some 2\<rparr>]"
  by code_simp



lemma category_rows_bounds:
  assumes "sorts_descending srt" "distinct (map fst tax)" "rows df \<noteq> []"
    and "r \<in> set (agg_categories_of srt tax df)"
  shows "\<exists>n. ca_count r = Some n \<and> 0 \<le> n \<and> n \<le> n_total df \<and>
           ca_share r = Some (of_int n / of_int (n_total df) * 100) \<and>
           0 \<le> of_int n / rat_of_int (n_total df) * 100 \<and>
           of_int n / rat_of_int (n_total df) * 100 \<le> 100"
proof -
  from assms(4) obtain cat sh where in_share: "(cat, sh) \<in> set (category_share tax df)"
    and r: "r = \<lparr>ca_skill_category = cat, ca_share = sh,
                 ca_count = map_of (category_count tax df) cat\<rparr>"
    unfolding set_agg_categories_of [OF assms(1)] by auto
  from in_category_share [OF in_share] obtain skills
    where tax: "(cat, skills) \<in> set tax" and cols: "category_cols df skills \<noteq> []"
      and sh: "sh = fmul (mean (mentioned df (category_cols df skills))) 100"
    by blast
  define n where "n = sum_list (mentioned df (category_cols df skills))"
  have len: "length (mentioned df (category_cols df skills)) = length (rows df)"
    by (simp add: mentioned_def)
  have pos: "0 < n_total df"
    using assms(3) by (simp add: n_total_def)
  have cnt: "ca_count r = Some n"
    by (simp add: r n_def map_of_category_count [OF assms(2) tax cols])
  have bounds: "0 \<le> n" "n \<le> n_total df"
    using sum_b2i_bounds [of "\<lambda>p. \<exists>c \<in> set (category_cols df skills). skill p c" "rows df"]
    by (simp_all add: n_def mentioned_any [OF cols] n_total_def)
  have share: "ca_share r = Some (of_int n / of_int (n_total df) * 100)"
    using pos by (simp add: r sh mean_def truediv_def fmul_def n_def len n_total_def)
  have lo: "0 \<le> of_int n / rat_of_int (n_total df) * 100"
    using bounds pos by simp
  have hi: "of_int n / rat_of_int (n_total df) * 100 \<le> 100"
    using bounds pos by (simp add: pos_divide_le_eq)
  from cnt bounds share lo hi show ?thesis
    by blast
qed

lemma agg_skills_gap_Inr_rows:
  assumes "agg_skills_gap srt df = Inr t"
  shows "rows df \<noteq> []"
proof
  assume "rows df = []"
  then have "getcol (skills_by_exp df) ''mid_plus'' = Inl KeyError"
    by (simp add: getcol_skills_by_exp)
  then have "agg_skills_gap srt df = Inl KeyError"
    by (simp add: agg_skills_gap_def Let_def)
  with assms show False
    by simp
qed

lemma main_of_Inr:
  assumes "main_of srt tax df = Inr out"
  shows "rows df \<noteq> []" "out_agg_skill_categories out = agg_categories_of srt tax df"
proof -
  from assms obtain by_country gap where "agg_skills_by_country df = Inr by_country"
    and gap: "agg_skills_gap srt df = Inr gap"
    and out: "out = \<lparr>out_fact_job_postings = fact_job_postings df,
                    out_agg_country = agg_country srt df,
                    out_agg_experience = agg_experience srt df,
                    out_agg_remote = agg_remote srt df,
                    out_agg_top_skills = top_skills srt df,
                    out_agg_skills_by_country = by_country,
                    out_agg_skills_gap = gap,
                    out_agg_skill_categories = agg_categories_of srt tax df,
                    out_agg_skills_count_dist = skills_count_dist srt df\<rparr>"
    by (auto simp: main_of_def split: sum.splits)
  show "rows df \<noteq> []"
    by (rule agg_skills_gap_Inr_rows [OF gap])
  show "out_agg_skill_categories out = agg_categories_of srt tax df"
    by (simp add: out)
qed

text \<open>
  Claim C10. In a run of \<^verbatim>\<open>main\<close> that writes \<^verbatim>\<open>agg_skill_categories\<close>, every row of that table
  has a count between 0 and the number of postings, and a share that is the count divided by
  the number of postings, times 100, between 0 and 100. This holds for any taxonomy, also one
  where a skill belongs to several categories. A run on an input with no posting does not
  get as far as the table: it ends at table 6.
\<close>

theorem category_count_share_bounds:
  assumes "sorts_descending srt" "distinct (map fst tax)" "main_of srt tax df = Inr out"
  shows "\<forall>r \<in> set (out_agg_skill_categories out). \<exists>n.
           ca_count r = Some n \<and> 0 \<le> n \<and> n \<le> n_total df \<and>
           ca_share r = Some (of_int n / of_int (n_total df) * 100) \<and>
           0 \<le> of_int n / rat_of_int (n_total df) * 100 \<and>
           of_int n / rat_of_int (n_total df) * 100 \<le> 100"
proof
  fix r assume "r \<in> set (out_agg_skill_categories out)"
  then have r: "r \<in> set (agg_categories_of srt tax df)"
    by (simp only: main_of_Inr(2) [OF assms(3)])
  show "\<exists>n. ca_count r = Some n \<and> 0 \<le> n \<and> n \<le> n_total df \<and>
           ca_share r = Some (of_int n / of_int (n_total df) * 100) \<and>
           0 \<le> of_int n / rat_of_int (n_total df) * 100 \<and>
           of_int n / rat_of_int (n_total df) * 100 \<le> 100"
    by (rule category_rows_bounds [OF assms(1,2) main_of_Inr(1) [OF assms(3)] r])
qed

lemma three_postings_main:
  "\<exists>out. main stable_desc three_postings = Inr out \<and>
     out_agg_skill_categories out =
       [\<lparr>ca_skill_category = ''Programming'', ca_share = Some (200 / 3), ca_count = Some 2\<rparr>]"
proof -
  have "getcol (skills_by_exp three_postings) ''mid_plus'' =
      Inr (map (group_share three_postings ''mid_plus'') (skill_cols three_postings))"
    "getcol (skills_by_exp three_postings) ''junior'' =
      Inr (map (group_share three_postings ''junior'') (skill_cols three_postings))"
    by (simp_all add: getcol_skills_by_exp three_postings_def mk_posting_def)
  then have "\<exists>gap. agg_skills_gap stable_desc three_postings = Inr gap"
    by (simp add: agg_skills_gap_def Let_def)
  then obtain gap where "agg_skills_gap stable_desc three_postings = Inr gap" ..
  then show ?thesis
    using three_postings_categories
    by (simp add: main_def main_of_def three_postings_by_country agg_categories_def)
qed

theorem category_count_share_bounds_witness:
  "\<exists>out. main stable_desc three_postings = Inr out \<and>
     out_agg_skill_categories out =
       [\<lparr>ca_skill_category = ''Programming'', ca_share = Some (200 / 3), ca_count = Some 2\<rparr>] \<and>
     n_total three_postings = 3 \<and>
     (\<exists>n. Some 2 = Some n \<and> 0 \<le> n \<and> n \<le> 3 \<and>
        Some (200 / 3) = Some (rat_of_int n / 3 * 100) \<and>
        0 \<le> rat_of_int n / 3 * 100 \<and> rat_of_int n / 3 * 100 \<le> 100)"
proof -
  let ?r = "\<lparr>ca_skill_category = ''Programming'', ca_share = Some (200 / 3), ca_count = Some 2\<rparr>"
  from three_postings_main obtain out
    where run: "main stable_desc three_postings = Inr out"
      and table: "out_agg_skill_categories out = [?r]"
    by blast
  have n: "n_total three_postings = 3"
    by (simp add: n_total_def three_postings_def)
  from run have run': "main_of stable_desc SKILL_CATEGORIES three_postings = Inr out"
    by (simp only: main_def)
  from table have "?r \<in> set (out_agg_skill_categories out)"
    by simp
  with category_count_share_bounds
    [OF sorts_descending_stable_desc distinct_SKILL_CATEGORIES run']
  have "\<exists>n. ca_count ?r = Some n \<and> 0 \<le> n \<and> n \<le> n_total three_postings \<and>
           ca_share ?r = Some (of_int n / of_int (n_total three_postings) * 100) \<and>
           0 \<le> of_int n / rat_of_int (n_total three_postings) * 100 \<and>
           of_int n / rat_of_int (n_total three_postings) * 100 \<le> 100"
    by (rule bspec)
  then have b: "\<exists>n. Some 2 = Some n \<and> 0 \<le> n \<and> n \<le> 3 \<and>
        Some (200 / 3) = Some (rat_of_int n / 3 * 100) \<and>
        0 \<le> rat_of_int n / 3 * 100 \<and> rat_of_int n / 3 * 100 \<le> 100"
    unfolding n by simp
  show ?thesis
    by (intro exI [of _ out] conjI run table n b)
qed

end
